theory Spec2Isabelle
  imports Complex_Main
begin

section \<open>Vectors of the rendering library\<close>

text \<open>
  The simulation in \<^verbatim>\<open>src/components/SpinGrid.tsx\<close> computes with the vector class of
  the rendering library. A vector is three numbers; the numbers of the program are
  modelled as real numbers, so every statement below is about the arithmetic the
  program writes down, without rounding. The operations are the ones the source calls,
  under the names it calls them by. \<open>normalize_v\<close> divides by the length, and by 1 when the
  length is 0 (the library writes \<^verbatim>\<open>length() || 1\<close>).
\<close>

datatype Vector3 = Vector3 (vx: real) (vy: real) (vz: real)

definition subVectors :: "Vector3 \<Rightarrow> Vector3 \<Rightarrow> Vector3" where
  "subVectors a b = Vector3 (vx a - vx b) (vy a - vy b) (vz a - vz b)"

definition addVectors :: "Vector3 \<Rightarrow> Vector3 \<Rightarrow> Vector3" where
  "addVectors a b = Vector3 (vx a + vx b) (vy a + vy b) (vz a + vz b)"

definition multiplyScalar :: "Vector3 \<Rightarrow> real \<Rightarrow> Vector3" where
  "multiplyScalar v s = Vector3 (vx v * s) (vy v * s) (vz v * s)"

definition divideScalar :: "Vector3 \<Rightarrow> real \<Rightarrow> Vector3" where
  "divideScalar v s = multiplyScalar v (1 / s)"

definition addScaledVector :: "Vector3 \<Rightarrow> Vector3 \<Rightarrow> real \<Rightarrow> Vector3" where
  "addScaledVector this v s = Vector3 (vx this + vx v * s) (vy this + vy v * s) (vz this + vz v * s)"

definition crossVectors :: "Vector3 \<Rightarrow> Vector3 \<Rightarrow> Vector3" where
  "crossVectors a b =
     Vector3 (vy a * vz b - vz a * vy b) (vz a * vx b - vx a * vz b) (vx a * vy b - vy a * vx b)"

definition lengthSq :: "Vector3 \<Rightarrow> real" where
  "lengthSq v = vx v * vx v + vy v * vy v + vz v * vz v"

definition length_v :: "Vector3 \<Rightarrow> real" where
  "length_v v = sqrt (lengthSq v)"

definition normalize_v :: "Vector3 \<Rightarrow> Vector3" where
  "normalize_v v = divideScalar v (if length_v v = 0 then 1 else length_v v)"

text \<open>
  A rotation and a placement matrix are kept as the library call that made them:
  \<^verbatim>\<open>q.setFromUnitVectors(a, b)\<close> and \<^verbatim>\<open>matrix.compose(position, q, scale)\<close> are
  functions of their arguments alone, so two transforms made from equal arguments
  are equal.
\<close>

datatype Quaternion = Identity_q | SetFromUnitVectors Vector3 Vector3

datatype Matrix4 = Identity_m | Compose Vector3 Quaternion Vector3

section \<open>The lattice\<close>

record Spin =
  id_spin :: string
  position :: Vector3
  direction :: Vector3
  matrix :: Matrix4
  neighbors :: "int list"

definition SPACING :: real where
  "SPACING = 0.5"

definition initialUpDirection :: Vector3 where
  "initialUpDirection = Vector3 0 0 1"

definition scale :: Vector3 where
  "scale = Vector3 1 1 1"

text \<open>The decimal digits of a loop counter, as the template string of the id prints it.\<close>

function string_of_nat :: "nat \<Rightarrow> string" where
  "string_of_nat n =
     (if n < 10 then [char_of (48 + n)]
      else string_of_nat (n div 10) @ [char_of (48 + n mod 10)])"
  by pat_completeness auto
termination
  by (relation "measure (\<lambda>n. n)") auto

declare string_of_nat.simps [simp del]

text \<open>
  The body of the inner loop of the lattice builder (lines 104 to 124): the site of row
  \<open>i\<close> and column \<open>j\<close>. The neighbours are pushed in the source's order: row above,
  row below, column before, column after, each only when it exists.
\<close>

definition neighbors_of :: "int \<Rightarrow> int \<Rightarrow> int \<Rightarrow> int list" where
  "neighbors_of gridSize i j =
     (if i > 0 then [(i - 1) * gridSize + j] else []) @
     (if i < gridSize - 1 then [(i + 1) * gridSize + j] else []) @
     (if j > 0 then [i * gridSize + (j - 1)] else []) @
     (if j < gridSize - 1 then [i * gridSize + (j + 1)] else [])"

definition make_spin :: "int \<Rightarrow> int \<Rightarrow> int \<Rightarrow> Spin" where
  "make_spin gridSize i j =
     (let offset = real_of_int (gridSize - 1) * SPACING / 2;
          position = Vector3 (real_of_int i * SPACING - offset) (real_of_int j * SPACING - offset) 0;
          direction = Vector3 0 0 1;
          q = SetFromUnitVectors initialUpDirection direction
      in \<lparr> id_spin = string_of_nat (nat i) @ ''-'' @ string_of_nat (nat j),
           position = position,
           direction = direction,
           matrix = Compose position q scale,
           neighbors = neighbors_of gridSize i j \<rparr>)"

text \<open>The two \<^verbatim>\<open>for\<close> loops of lines 102 and 103, each pushing to \<open>initialSpins\<close>.\<close>

function inner_loop :: "int \<Rightarrow> int \<Rightarrow> int \<Rightarrow> Spin list \<Rightarrow> Spin list" where
  "inner_loop gridSize i j initialSpins =
     (if j < gridSize
      then inner_loop gridSize i (j + 1) (initialSpins @ [make_spin gridSize i j])
      else initialSpins)"
  by pat_completeness auto
termination
  by (relation "measure (\<lambda>(gridSize, i, j, initialSpins). nat (gridSize - j))") auto

declare inner_loop.simps [simp del]

function outer_loop :: "int \<Rightarrow> int \<Rightarrow> Spin list \<Rightarrow> Spin list" where
  "outer_loop gridSize i initialSpins =
     (if i < gridSize
      then outer_loop gridSize (i + 1) (inner_loop gridSize i 0 initialSpins)
      else initialSpins)"
  by pat_completeness auto
termination
  by (relation "measure (\<lambda>(gridSize, i, initialSpins). nat (gridSize - i))") auto

declare outer_loop.simps [simp del]

definition build_spins :: "int \<Rightarrow> Spin list" where
  "build_spins gridSize = outer_loop gridSize 0 []"


section \<open>The component's state\<close>

record SpinGridProps =
  gridSize :: int
  isFieldInverted :: bool
  gamma :: real
  alpha :: real
  exchangeStrength :: real
  externalFieldStrength :: real
  timeStepScale :: real

text \<open>
  An instanced mesh holds one placement matrix per instance. \<^verbatim>\<open>setMatrixAt\<close> writes into a
  typed array, where a write past the end is dropped, as \<open>xs[i := v]\<close> does.
\<close>

record InstancedMesh =
  instanceMatrix :: "Matrix4 list"
  needsUpdate :: bool

definition setMatrixAt :: "InstancedMesh \<Rightarrow> nat \<Rightarrow> Matrix4 \<Rightarrow> InstancedMesh" where
  "setMatrixAt mesh index mat = mesh\<lparr>instanceMatrix := (instanceMatrix mesh)[index := mat]\<rparr>"

text \<open>
  Everything the two effects and the frame callback read and write: the three refs of
  the component, the two mesh refs (\<open>None\<close> is \<^verbatim>\<open>null\<close>), and the helper vectors of
  lines 70 to 77, which are module-level objects shared by all sites and all frames.
  The helpers carry the suffix \<open>_v\<close>.
\<close>

record SimState =
  spinsRef :: "Spin list"
  prevDirectionsRef :: "Vector3 list"
  mousePosRef :: Vector3
  headMeshRef :: "InstancedMesh option"
  shaftMeshRef :: "InstancedMesh option"
  m_v :: Vector3
  H_eff_v :: Vector3
  H_ext_v :: Vector3
  H_exch_v :: Vector3
  term1_v :: Vector3
  term2_v :: Vector3
  dmdt_v :: Vector3
  q_v :: Quaternion

section \<open>The lattice builder as an effect\<close>

text \<open>
  The first effect (lines 98 to 137) builds the sites, stores them, and copies their
  matrices to the meshes when both exist. Building a site sets the shared helper \<open>q\<close>.
  The body has no \<^verbatim>\<open>throw\<close> and no early
  return; the result type still has room for a rejected build, so that a statement about
  rejection can be written down.
\<close>

datatype build_error = InvalidConfiguration

definition copy_matrices :: "Spin list \<Rightarrow> InstancedMesh \<Rightarrow> InstancedMesh" where
  "copy_matrices initialSpins mesh =
     foldl (\<lambda>acc index. setMatrixAt acc index (matrix (initialSpins ! index)))
       mesh [0..<length initialSpins]"

definition useEffect_build :: "SpinGridProps \<Rightarrow> SimState \<Rightarrow> build_error + SimState" where
  "useEffect_build props st =
     (let initialSpins = build_spins (gridSize props);
          st1 = (if initialSpins = [] then st
                 else st\<lparr>q_v := SetFromUnitVectors initialUpDirection (Vector3 0 0 1)\<rparr>);
          st2 = st1\<lparr>spinsRef := initialSpins\<rparr>
      in case (headMeshRef st2, shaftMeshRef st2) of
           (Some head, Some shaft) \<Rightarrow>
             Inr (st2\<lparr>headMeshRef := Some ((copy_matrices initialSpins head)\<lparr>needsUpdate := True\<rparr>),
                      shaftMeshRef := Some ((copy_matrices initialSpins shaft)\<lparr>needsUpdate := True\<rparr>)\<rparr>)
         | _ \<Rightarrow> Inr st2)"

text \<open>The second effect (lines 139 to 142) stores a copy of the sites' directions.\<close>

definition useEffect_snapshot :: "SimState \<Rightarrow> SimState" where
  "useEffect_snapshot st = st\<lparr>prevDirectionsRef := map direction (spinsRef st)\<rparr>"

section \<open>One frame\<close>

text \<open>
  \<^verbatim>\<open>prevDirectionsRef.current[neighborIndex]\<close>: an array read at a number gives
  \<^verbatim>\<open>undefined\<close> outside the array, which the \<^verbatim>\<open>if\<close> of line 173 takes as false;
  a vector object is always taken as true.
\<close>

definition lookup_dir :: "Vector3 list \<Rightarrow> int \<Rightarrow> Vector3 option" where
  "lookup_dir ds k = (if 0 \<le> k \<and> nat k < length ds then Some (ds ! nat k) else None)"

definition add_v :: "Vector3 \<Rightarrow> Vector3 \<Rightarrow> Vector3" where
  "add_v this v = Vector3 (vx this + vx v) (vy this + vy v) (vz this + vz v)"

definition add_neighbor :: "SimState \<Rightarrow> int \<Rightarrow> SimState" where
  "add_neighbor st neighborIndex =
     (case lookup_dir (prevDirectionsRef st) neighborIndex of
        Some d \<Rightarrow> st\<lparr>H_exch_v := add_v (H_exch_v st) d\<rparr>
      | None \<Rightarrow> st)"

text \<open>
  The body of the site loop (lines 159 to 196), statement by statement, for the site at
  \<open>index\<close>. The site object is changed in place by the source; here it is written back to
  the list once its direction and matrix are final. The mesh refs are not \<^verbatim>\<open>null\<close>
  here, by the guard of line 153.
\<close>

definition site_update :: "SpinGridProps \<Rightarrow> real \<Rightarrow> SimState \<Rightarrow> nat \<Rightarrow> SimState" where
  "site_update props dt st0 index =
     (let spin = spinsRef st0 ! index;
          st1 = st0\<lparr>m_v := direction spin\<rparr>;
          st2 = st1\<lparr>H_ext_v := subVectors (position spin) (mousePosRef st1)\<rparr>;
          distSq = lengthSq (H_ext_v st2);
          strength0 = externalFieldStrength props / (1 + distSq * 5);
          strength = (if isFieldInverted props then strength0 * (- 1) else strength0);
          st3 = st2\<lparr>H_ext_v := multiplyScalar (normalize_v (H_ext_v st2)) strength\<rparr>;
          st4 = st3\<lparr>H_exch_v := Vector3 0 0 0\<rparr>;
          st5 = foldl add_neighbor st4 (neighbors spin);
          exchangeScaling = exchangeStrength props * 1000000;
          st6 = st5\<lparr>H_exch_v := multiplyScalar (H_exch_v st5) exchangeScaling\<rparr>;
          st7 = st6\<lparr>H_eff_v := addVectors (H_ext_v st6) (H_exch_v st6)\<rparr>;
          gamma_eff = gamma props / (1 + alpha props * alpha props);
          st8 = st7\<lparr>term1_v := crossVectors (m_v st7) (H_eff_v st7)\<rparr>;
          st9 = st8\<lparr>term2_v := crossVectors (m_v st8) (term1_v st8)\<rparr>;
          st10 = st9\<lparr>term1_v := multiplyScalar (term1_v st9) (- gamma_eff)\<rparr>;
          st11 = st10\<lparr>term2_v := multiplyScalar (term2_v st10) (- gamma_eff * alpha props)\<rparr>;
          st12 = st11\<lparr>dmdt_v := addVectors (term1_v st11) (term2_v st11)\<rparr>;
          spin1 = spin\<lparr>direction := addScaledVector (direction spin) (dmdt_v st12) dt\<rparr>;
          spin2 = spin1\<lparr>direction := normalize_v (direction spin1)\<rparr>;
          st13 = st12\<lparr>q_v := SetFromUnitVectors initialUpDirection (direction spin2)\<rparr>;
          spin3 = spin2\<lparr>matrix := Compose (position spin2) (q_v st13) scale\<rparr>;
          st14 = st13\<lparr>spinsRef := (spinsRef st13)[index := spin3]\<rparr>;
          st15 = st14\<lparr>headMeshRef :=
                   map_option (\<lambda>mesh. setMatrixAt mesh index (matrix spin3)) (headMeshRef st14)\<rparr>;
          st16 = st15\<lparr>shaftMeshRef :=
                   map_option (\<lambda>mesh. setMatrixAt mesh index (matrix spin3)) (shaftMeshRef st15)\<rparr>
      in st16)"

text \<open>
  The site loop visits the indices of \<open>order\<close> one after the other. The source's
  \<^verbatim>\<open>forEach\<close> is the order \<open>[0..<length (spinsRef st)]\<close>.
\<close>

definition forEach_spin :: "SpinGridProps \<Rightarrow> real \<Rightarrow> nat list \<Rightarrow> SimState \<Rightarrow> SimState" where
  "forEach_spin props dt order st = foldl (site_update props dt) st order"

text \<open>
  The frame callback (lines 144 to 201). \<open>target\<close> is the point where the pointer's ray
  meets the plane, \<open>None\<close> when it does not; \<open>delta\<close> is the frame's wall-clock time.
\<close>

definition frame_dt :: "SpinGridProps \<Rightarrow> real \<Rightarrow> real" where
  "frame_dt props delta = min delta 0.03 * timeStepScale props"

definition mark_update :: "InstancedMesh option \<Rightarrow> InstancedMesh option" where
  "mark_update ref = map_option (\<lambda>mesh. mesh\<lparr>needsUpdate := True\<rparr>) ref"

definition useFrame_in_order ::
  "(SimState \<Rightarrow> nat list) \<Rightarrow> SpinGridProps \<Rightarrow> Vector3 option \<Rightarrow> real \<Rightarrow> SimState \<Rightarrow> SimState" where
  "useFrame_in_order order props target delta st0 =
     (let dt = frame_dt props delta;
          st1 = (case target of Some t \<Rightarrow> st0\<lparr>mousePosRef := t\<rparr> | None \<Rightarrow> st0)
      in if headMeshRef st1 = None \<or> shaftMeshRef st1 = None \<or> length (spinsRef st1) = 0
         then st1
         else
           let currentDirections = map direction (spinsRef st1);
               st2 = st1\<lparr>prevDirectionsRef := currentDirections\<rparr>;
               st3 = forEach_spin props dt (order st2) st2;
               st4 = st3\<lparr>headMeshRef := mark_update (headMeshRef st3)\<rparr>
           in st4\<lparr>shaftMeshRef := mark_update (shaftMeshRef st4)\<rparr>)"

definition useFrame :: "SpinGridProps \<Rightarrow> Vector3 option \<Rightarrow> real \<Rightarrow> SimState \<Rightarrow> SimState" where
  "useFrame = useFrame_in_order (\<lambda>st. [0..<length (spinsRef st)])"

section \<open>The integrator on numbers that can overflow\<close>

text \<open>
  A second model of the integrator (lines 182 to 190), on numbers that leave the range of
  a double. A number is a real, an infinity or \<^verbatim>\<open>NaN\<close>. An operation on finite
  operands gives an infinity when its exact result reaches \<open>OVERFLOW_AT\<close>, the least
  magnitude that rounding to nearest takes to \<^verbatim>\<open>Infinity\<close> (the largest double plus half
  a unit in its last place); inside the range the result is exact, so rounding is not
  modelled, and neither is the sign of zero (no divisor of the integrator is zero: one
  is \<open>1 + alpha\<^sup>2\<close>, the other has passed \<^verbatim>\<open>|| 1\<close>). The special values follow the rules of the
  arithmetic: \<^verbatim>\<open>Infinity - Infinity\<close>, \<^verbatim>\<open>0 * Infinity\<close> and \<^verbatim>\<open>Infinity / Infinity\<close>
  are \<^verbatim>\<open>NaN\<close>, a finite number divided by an infinity is 0. \<open>or_else\<close> is
  \<^verbatim>\<open>||\<close> on numbers, which takes 0 and \<^verbatim>\<open>NaN\<close> as false.
\<close>

datatype Number = Finite real | PosInfinity | NegInfinity | NaN

definition OVERFLOW_AT :: real where
  "OVERFLOW_AT = (2 - 1 / 2 ^ 53) * 2 ^ 1023"

definition overflow :: "real \<Rightarrow> Number" where
  "overflow x = (if x \<ge> OVERFLOW_AT then PosInfinity
                 else if x \<le> - OVERFLOW_AT then NegInfinity else Finite x)"

fun neg_n :: "Number \<Rightarrow> Number" where
  "neg_n (Finite a) = Finite (- a)"
| "neg_n PosInfinity = NegInfinity"
| "neg_n NegInfinity = PosInfinity"
| "neg_n NaN = NaN"







text \<open>
  The vector operations the integrator calls, as the library writes them:
  \<^verbatim>\<open>divideScalar(s)\<close> multiplies by \<^verbatim>\<open>1 / s\<close>, and \<^verbatim>\<open>normalize()\<close> is
  \<^verbatim>\<open>divideScalar(length() || 1)\<close>.
\<close>

datatype Vector3_n = Vector3_n (nx: Number) (ny: Number) (nz: Number)











text \<open>A vector of reals as a vector of finite numbers.\<close>

definition fin :: "Vector3 \<Rightarrow> Vector3_n" where
  "fin v = Vector3_n (Finite (vx v)) (Finite (vy v)) (Finite (vz v))"

section \<open>The site update as a function\<close>

text \<open>
  What one pass of the loop body computes, written as functions of the values it reads.
  Lemma \<open>site_update_eq\<close> below shows that the statement-by-statement body computes
  exactly these.
\<close>

definition exchange_sum :: "Vector3 list \<Rightarrow> Vector3 \<Rightarrow> int list \<Rightarrow> Vector3" where
  "exchange_sum prev acc ks =
     foldl (\<lambda>a k. case lookup_dir prev k of Some d \<Rightarrow> add_v a d | None \<Rightarrow> a) acc ks"

definition H_ext_of :: "SpinGridProps \<Rightarrow> Vector3 \<Rightarrow> Vector3 \<Rightarrow> Vector3" where
  "H_ext_of props mousePos pos =
     (let off = subVectors pos mousePos;
          strength0 = externalFieldStrength props / (1 + lengthSq off * 5)
      in multiplyScalar (normalize_v off) (if isFieldInverted props then strength0 * (- 1) else strength0))"

definition H_exch_of :: "SpinGridProps \<Rightarrow> Vector3 list \<Rightarrow> int list \<Rightarrow> Vector3" where
  "H_exch_of props prev ks =
     multiplyScalar (exchange_sum prev (Vector3 0 0 0) ks) (exchangeStrength props * 1000000)"

definition H_eff_of :: "SpinGridProps \<Rightarrow> Vector3 \<Rightarrow> Vector3 list \<Rightarrow> Spin \<Rightarrow> Vector3" where
  "H_eff_of props mousePos prev spin =
     addVectors (H_ext_of props mousePos (position spin)) (H_exch_of props prev (neighbors spin))"

definition gamma_eff_of :: "SpinGridProps \<Rightarrow> real" where
  "gamma_eff_of props = gamma props / (1 + alpha props * alpha props)"

definition term1_of :: "SpinGridProps \<Rightarrow> Vector3 \<Rightarrow> Vector3 \<Rightarrow> Vector3" where
  "term1_of props m H = multiplyScalar (crossVectors m H) (- gamma_eff_of props)"

definition term2_of :: "SpinGridProps \<Rightarrow> Vector3 \<Rightarrow> Vector3 \<Rightarrow> Vector3" where
  "term2_of props m H =
     multiplyScalar (crossVectors m (crossVectors m H)) (- gamma_eff_of props * alpha props)"

definition dmdt_of :: "SpinGridProps \<Rightarrow> Vector3 \<Rightarrow> Vector3 \<Rightarrow> Vector3" where
  "dmdt_of props m H = addVectors (term1_of props m H) (term2_of props m H)"

definition m_new_of :: "SpinGridProps \<Rightarrow> real \<Rightarrow> Vector3 \<Rightarrow> Vector3 \<Rightarrow> Vector3" where
  "m_new_of props dt m H = normalize_v (addScaledVector m (dmdt_of props m H) dt)"

definition spin_step :: "SpinGridProps \<Rightarrow> real \<Rightarrow> Vector3 \<Rightarrow> Vector3 list \<Rightarrow> Spin \<Rightarrow> Spin" where
  "spin_step props dt mousePos prev spin =
     (let d = m_new_of props dt (direction spin) (H_eff_of props mousePos prev spin)
      in spin\<lparr>direction := d,
              matrix := Compose (position spin) (SetFromUnitVectors initialUpDirection d) scale\<rparr>)"

text \<open>
  The site at index \<open>k\<close> after its pass, and the site list and a mesh buffer once the
  indices in \<open>visited\<close> have had their pass.
\<close>

definition new_spin :: "SpinGridProps \<Rightarrow> real \<Rightarrow> SimState \<Rightarrow> nat \<Rightarrow> Spin" where
  "new_spin props dt st k =
     spin_step props dt (mousePosRef st) (prevDirectionsRef st) (spinsRef st ! k)"

definition spins_after :: "SpinGridProps \<Rightarrow> real \<Rightarrow> nat set \<Rightarrow> SimState \<Rightarrow> Spin list" where
  "spins_after props dt visited st =
     map (\<lambda>k. if k \<in> visited then new_spin props dt st k else spinsRef st ! k)
       [0..<length (spinsRef st)]"

definition mesh_after ::
  "SpinGridProps \<Rightarrow> real \<Rightarrow> nat set \<Rightarrow> SimState \<Rightarrow> InstancedMesh \<Rightarrow> InstancedMesh" where
  "mesh_after props dt visited st mesh =
     mesh\<lparr>instanceMatrix :=
       map (\<lambda>k. if k \<in> visited then matrix (new_spin props dt st k) else instanceMatrix mesh ! k)
         [0..<length (instanceMatrix mesh)]\<rparr>"

text \<open>
  The state in which the site loop of a frame starts: the pointer position updated when
  the ray met the plane (lines 148 to 151), and the snapshot taken (lines 155 and 156).
\<close>

definition frame_entry :: "Vector3 option \<Rightarrow> SimState \<Rightarrow> SimState" where
  "frame_entry target st =
     (case target of Some t \<Rightarrow> st\<lparr>mousePosRef := t\<rparr> | None \<Rightarrow> st)
       \<lparr>prevDirectionsRef := map direction (spinsRef st)\<rparr>"


definition row_of :: "int \<Rightarrow> int \<Rightarrow> Spin list" where
  "row_of N i = map (make_spin N i) [0..N - 1]"

section \<open>The words of the specification\<close>

text \<open>
  Where a site lies in a grid of size \<open>N\<close>: a row or column is on the border when it is
  the first or the last; a corner is on the border in both coordinates, an edge site in
  exactly one, an interior site in none.
\<close>

definition in_grid :: "int \<Rightarrow> int \<Rightarrow> int \<Rightarrow> bool" where
  "in_grid N i j \<longleftrightarrow> 0 \<le> i \<and> i < N \<and> 0 \<le> j \<and> j < N"

definition on_border :: "int \<Rightarrow> int \<Rightarrow> bool" where
  "on_border N i \<longleftrightarrow> i = 0 \<or> i = N - 1"

definition is_corner :: "int \<Rightarrow> int \<Rightarrow> int \<Rightarrow> bool" where
  "is_corner N i j \<longleftrightarrow> on_border N i \<and> on_border N j"

definition is_edge :: "int \<Rightarrow> int \<Rightarrow> int \<Rightarrow> bool" where
  "is_edge N i j \<longleftrightarrow> (on_border N i \<and> \<not> on_border N j) \<or> (\<not> on_border N i \<and> on_border N j)"

definition is_interior :: "int \<Rightarrow> int \<Rightarrow> int \<Rightarrow> bool" where
  "is_interior N i j \<longleftrightarrow> \<not> on_border N i \<and> \<not> on_border N j"

text \<open>
  The two terms of the effective field as the specification words them: the offset from
  the pointer to the site, divided by its length and scaled by \<open>E / (1 + 5 d\<^sup>2)\<close>, and the
  zero vector when the offset has length 0; and the sum of the snapshot's directions at
  the neighbour indices that the snapshot has, scaled by \<open>J\<close> times a million.
\<close>

definition sum_vectors :: "Vector3 list \<Rightarrow> Vector3" where
  "sum_vectors vs = foldr addVectors vs (Vector3 0 0 0)"

definition external_term :: "real \<Rightarrow> Vector3 \<Rightarrow> Vector3 \<Rightarrow> Vector3" where
  "external_term E pointer pos =
     (let off = subVectors pos pointer; d2 = lengthSq off
      in if length_v off = 0 then Vector3 0 0 0
         else multiplyScalar (divideScalar off (length_v off)) (E / (1 + 5 * d2)))"

definition exchange_term :: "real \<Rightarrow> Vector3 list \<Rightarrow> int list \<Rightarrow> Vector3" where
  "exchange_term J snapshot ks =
     multiplyScalar
       (sum_vectors (map (\<lambda>k. snapshot ! nat k)
          (filter (\<lambda>k. 0 \<le> k \<and> k < int (length snapshot)) ks)))
       (J * 1000000)"

section \<open>Concrete states\<close>

text \<open>
  The state when the module has been loaded and the component mounted, before either
  effect has run: empty refs, \<^verbatim>\<open>null\<close> mesh refs, zero helper vectors. The defaults of
  lines 29 to 35 are the parameters.
\<close>

definition initial_state :: SimState where
  "initial_state =
     \<lparr> spinsRef = [], prevDirectionsRef = [], mousePosRef = Vector3 0 0 0,
       headMeshRef = None, shaftMeshRef = None,
       m_v = Vector3 0 0 0, H_eff_v = Vector3 0 0 0, H_ext_v = Vector3 0 0 0,
       H_exch_v = Vector3 0 0 0, term1_v = Vector3 0 0 0, term2_v = Vector3 0 0 0,
       dmdt_v = Vector3 0 0 0, q_v = Identity_q \<rparr>"

definition default_props :: SpinGridProps where
  "default_props =
     \<lparr> gridSize = 20, isFieldInverted = False, gamma = 500000, alpha = 0.3,
       exchangeStrength = 1.5 / 10 ^ 10, externalFieldStrength = 200000,
       timeStepScale = 5 / 10 ^ 10 \<rparr>"

definition empty_mesh :: "nat \<Rightarrow> InstancedMesh" where
  "empty_mesh count = \<lparr> instanceMatrix = replicate count Identity_m, needsUpdate = False \<rparr>"

text \<open>
  A site with the given position, direction and neighbour list, and the state of a
  mounted component that holds the given sites, with the snapshot taken.
\<close>

definition site :: "Vector3 \<Rightarrow> Vector3 \<Rightarrow> int list \<Rightarrow> Spin" where
  "site pos d ns =
     \<lparr> id_spin = [], position = pos, direction = d, matrix = Identity_m, neighbors = ns \<rparr>"

definition mounted_state :: "Spin list \<Rightarrow> SimState" where
  "mounted_state ss =
     initial_state\<lparr> spinsRef := ss, prevDirectionsRef := map direction ss,
                    headMeshRef := Some (empty_mesh (length ss)),
                    shaftMeshRef := Some (empty_mesh (length ss)) \<rparr>"

text \<open>
  One site one unit away from the pointer; two neighbouring sites pointing up; and a
  site pointing up, one unit from the pointer, whose neighbour points along the first
  axis, with parameters that make one step come out in fractions.
\<close>

definition offset_site_state :: SimState where
  "offset_site_state = mounted_state [site (Vector3 1 0 0) (Vector3 0 0 1) []]"

definition pair_state :: SimState where
  "pair_state = mounted_state [site (Vector3 0 0 0) (Vector3 0 0 1) [1],
                               site (Vector3 (1 / 2) 0 0) (Vector3 0 0 1) [0]]"

text \<open>The defaults with the polarity flag set and a small field strength.\<close>

definition inverted_props :: SpinGridProps where
  "inverted_props = default_props\<lparr>isFieldInverted := True, externalFieldStrength := 6\<rparr>"

definition tilt_props :: SpinGridProps where
  "tilt_props =
     \<lparr> gridSize = 2, isFieldInverted = False, gamma = 25 / 16, alpha = 3 / 4,
       exchangeStrength = 1 / 10 ^ 7, externalFieldStrength = 3 / 5,
       timeStepScale = 100 \<rparr>"

definition tilt_state :: SimState where
  "tilt_state = mounted_state [site (Vector3 1 0 0) (Vector3 0 0 1) [1],
                               site (Vector3 (3 / 2) 0 0) (Vector3 1 0 0) [0]]"



section \<open>The loop body computes the site update\<close>

lemma add_neighbor_eq:
  "add_neighbor st k =
     st\<lparr>H_exch_v := (case lookup_dir (prevDirectionsRef st) k of
                        Some d \<Rightarrow> add_v (H_exch_v st) d | None \<Rightarrow> H_exch_v st)\<rparr>"
  by (simp add: add_neighbor_def split: option.split)

lemma foldl_add_neighbor:
  "foldl add_neighbor st ks = st\<lparr>H_exch_v := exchange_sum (prevDirectionsRef st) (H_exch_v st) ks\<rparr>"
proof (induction ks arbitrary: st)
  case Nil
  show ?case by (simp add: exchange_sum_def)
next
  case (Cons k ks)
  have "foldl add_neighbor st (k # ks) = foldl add_neighbor (add_neighbor st k) ks"
    by simp
  also have "\<dots> = (add_neighbor st k)\<lparr>H_exch_v :=
      exchange_sum (prevDirectionsRef (add_neighbor st k)) (H_exch_v (add_neighbor st k)) ks\<rparr>"
    by (rule Cons.IH)
  also have "\<dots> = st\<lparr>H_exch_v := exchange_sum (prevDirectionsRef st) (H_exch_v st) (k # ks)\<rparr>"
    by (simp add: add_neighbor_eq exchange_sum_def split: option.split)
  finally show ?case .
qed

lemma site_update_eq:
  "site_update props dt st index =
     (let spin = spinsRef st ! index;
          H = H_eff_of props (mousePosRef st) (prevDirectionsRef st) spin;
          spin' = spin_step props dt (mousePosRef st) (prevDirectionsRef st) spin
      in st\<lparr>m_v := direction spin,
            H_ext_v := H_ext_of props (mousePosRef st) (position spin),
            H_exch_v := H_exch_of props (prevDirectionsRef st) (neighbors spin),
            H_eff_v := H,
            term1_v := term1_of props (direction spin) H,
            term2_v := term2_of props (direction spin) H,
            dmdt_v := dmdt_of props (direction spin) H,
            q_v := SetFromUnitVectors initialUpDirection (direction spin'),
            spinsRef := (spinsRef st)[index := spin'],
            headMeshRef := map_option (\<lambda>mesh. setMatrixAt mesh index (matrix spin')) (headMeshRef st),
            shaftMeshRef := map_option (\<lambda>mesh. setMatrixAt mesh index (matrix spin')) (shaftMeshRef st)\<rparr>)"
  by (simp add: site_update_def Let_def foldl_add_neighbor spin_step_def m_new_of_def dmdt_of_def
      term1_of_def term2_of_def gamma_eff_of_def H_eff_of_def H_exch_of_def H_ext_of_def)

lemma site_update_spinsRef:
  "spinsRef (site_update props dt st i) = (spinsRef st)[i := new_spin props dt st i]"
  by (simp add: site_update_eq Let_def new_spin_def)

lemma site_update_prevDirectionsRef:
  "prevDirectionsRef (site_update props dt st i) = prevDirectionsRef st"
  by (simp add: site_update_eq Let_def)

lemma site_update_mousePosRef:
  "mousePosRef (site_update props dt st i) = mousePosRef st"
  by (simp add: site_update_eq Let_def)

lemma site_update_headMeshRef:
  "headMeshRef (site_update props dt st i) =
     map_option (\<lambda>mesh. setMatrixAt mesh i (matrix (new_spin props dt st i))) (headMeshRef st)"
  by (simp add: site_update_eq Let_def new_spin_def)

lemma site_update_shaftMeshRef:
  "shaftMeshRef (site_update props dt st i) =
     map_option (\<lambda>mesh. setMatrixAt mesh i (matrix (new_spin props dt st i))) (shaftMeshRef st)"
  by (simp add: site_update_eq Let_def new_spin_def)

lemma new_spin_site_update:
  "k \<noteq> i \<Longrightarrow> new_spin props dt (site_update props dt st i) k = new_spin props dt st k"
  by (simp add: new_spin_def site_update_spinsRef site_update_prevDirectionsRef
      site_update_mousePosRef)

lemma forEach_spin_Cons:
  "forEach_spin props dt (i # order) st = forEach_spin props dt order (site_update props dt st i)"
  by (simp add: forEach_spin_def)

lemma forEach_spin_spinsRef:
  "distinct order \<Longrightarrow>
   spinsRef (forEach_spin props dt order st) = spins_after props dt (set order) st"
proof (induction order arbitrary: st)
  case Nil
  show ?case by (simp add: forEach_spin_def spins_after_def map_nth)
next
  case (Cons i order)
  let ?st = "site_update props dt st i"
  have d: "distinct order" and ni: "i \<notin> set order" using Cons.prems by simp_all
  have "spinsRef (forEach_spin props dt (i # order) st) = spins_after props dt (set order) ?st"
    by (simp only: forEach_spin_Cons Cons.IH [OF d])
  also have "\<dots> = spins_after props dt (set (i # order)) st"
  proof (rule nth_equalityI)
    show "length (spins_after props dt (set order) ?st) =
          length (spins_after props dt (set (i # order)) st)"
      by (simp add: spins_after_def site_update_spinsRef)
  next
    fix k assume "k < length (spins_after props dt (set order) ?st)"
    then have k: "k < length (spinsRef st)"
      by (simp add: spins_after_def site_update_spinsRef)
    show "spins_after props dt (set order) ?st ! k = spins_after props dt (set (i # order)) st ! k"
    proof (cases "k = i")
      case True
      with k ni show ?thesis by (simp add: spins_after_def site_update_spinsRef)
    next
      case False
      with k show ?thesis
        by (simp add: spins_after_def site_update_spinsRef new_spin_site_update)
    qed
  qed
  finally show ?case .
qed

lemma mesh_after_step:
  assumes ni: "i \<notin> visited"
  shows "mesh_after props dt visited (site_update props dt st i)
           (setMatrixAt mesh i (matrix (new_spin props dt st i))) =
         mesh_after props dt (insert i visited) st mesh"
proof -
  have "(if k \<in> visited then matrix (new_spin props dt (site_update props dt st i) k)
         else (instanceMatrix mesh)[i := matrix (new_spin props dt st i)] ! k) =
        (if k = i \<or> k \<in> visited then matrix (new_spin props dt st k)
         else instanceMatrix mesh ! k)"
    if k: "k < length (instanceMatrix mesh)" for k
  proof (cases "k = i")
    case True
    with k ni show ?thesis by simp
  next
    case False
    then show ?thesis by (simp add: new_spin_site_update)
  qed
  then show ?thesis by (simp add: mesh_after_def setMatrixAt_def cong: if_cong)
qed

lemma forEach_spin_headMeshRef:
  "distinct order \<Longrightarrow>
   headMeshRef (forEach_spin props dt order st) =
     map_option (mesh_after props dt (set order) st) (headMeshRef st)"
proof (induction order arbitrary: st)
  case Nil
  have "\<And>mesh. mesh_after props dt {} st mesh = mesh"
    by (simp add: mesh_after_def map_nth)
  then show ?case by (simp add: forEach_spin_def option.map_ident)
next
  case (Cons i order)
  have d: "distinct order" and ni: "i \<notin> set order" using Cons.prems by simp_all
  show ?case
    by (simp add: forEach_spin_Cons Cons.IH [OF d] site_update_headMeshRef option.map_comp
        comp_def mesh_after_step [OF ni])
qed

lemma forEach_spin_shaftMeshRef:
  "distinct order \<Longrightarrow>
   shaftMeshRef (forEach_spin props dt order st) =
     map_option (mesh_after props dt (set order) st) (shaftMeshRef st)"
proof (induction order arbitrary: st)
  case Nil
  have "\<And>mesh. mesh_after props dt {} st mesh = mesh"
    by (simp add: mesh_after_def map_nth)
  then show ?case by (simp add: forEach_spin_def option.map_ident)
next
  case (Cons i order)
  have d: "distinct order" and ni: "i \<notin> set order" using Cons.prems by simp_all
  show ?case
    by (simp add: forEach_spin_Cons Cons.IH [OF d] site_update_shaftMeshRef option.map_comp
        comp_def mesh_after_step [OF ni])
qed

lemma forEach_spin_prevDirectionsRef:
  "prevDirectionsRef (forEach_spin props dt order st) = prevDirectionsRef st"
  by (induction order arbitrary: st) (simp_all add: forEach_spin_def site_update_prevDirectionsRef)

lemma forEach_spin_mousePosRef:
  "mousePosRef (forEach_spin props dt order st) = mousePosRef st"
  by (induction order arbitrary: st) (simp_all add: forEach_spin_def site_update_mousePosRef)

section \<open>Vector algebra\<close>


lemma lengthSq_eq_0_iff: "lengthSq v = 0 \<longleftrightarrow> v = Vector3 0 0 0"
proof (cases v)
  case (Vector3 a b c)
  have "a * a + b * b + c * c = 0 \<longleftrightarrow> a = 0 \<and> b = 0 \<and> c = 0"
  proof
    assume h: "a * a + b * b + c * c = 0"
    have "0 \<le> a * a" "0 \<le> b * b" "0 \<le> c * c" by simp_all
    with h have "a * a = 0" "b * b = 0" "c * c = 0" by linarith+
    then show "a = 0 \<and> b = 0 \<and> c = 0" by simp
  qed simp
  with Vector3 show ?thesis by (simp add: lengthSq_def)
qed

lemma length_v_eq_0_iff: "length_v v = 0 \<longleftrightarrow> v = Vector3 0 0 0"
  by (simp add: length_v_def lengthSq_eq_0_iff)



lemma normalize_unit:
  assumes "length_v v = 1"
  shows "normalize_v v = v"
  using assms by (cases v) (simp add: normalize_v_def divideScalar_def multiplyScalar_def)

lemma normalize_zero: "normalize_v (Vector3 0 0 0) = Vector3 0 0 0"
  by (simp add: normalize_v_def divideScalar_def multiplyScalar_def)

lemma crossVectors_parallel: "crossVectors v (multiplyScalar v c) = Vector3 0 0 0"
  by (simp add: crossVectors_def multiplyScalar_def)

lemma crossVectors_zero: "crossVectors v (Vector3 0 0 0) = Vector3 0 0 0"
  by (simp add: crossVectors_def)





section \<open>The loops of the lattice builder\<close>

lemma inner_loop_eq:
  "inner_loop N i j acc = acc @ map (make_spin N i) [j..N - 1]"
proof (induction N i j acc rule: inner_loop.induct)
  case (1 gridSize i j initialSpins)
  show ?case
  proof (cases "j < gridSize")
    case True
    have "[j..gridSize - 1] = j # [j + 1..gridSize - 1]"
      using True by (simp add: upto_rec1)
    with True "1.IH" show ?thesis
      by (subst inner_loop.simps) simp
  next
    case False
    then show ?thesis by (subst inner_loop.simps) simp
  qed
qed

lemma outer_loop_eq:
  "outer_loop N i acc = acc @ concat (map (row_of N) [i..N - 1])"
proof (induction N i acc rule: outer_loop.induct)
  case (1 gridSize i initialSpins)
  show ?case
  proof (cases "i < gridSize")
    case True
    have "[i..gridSize - 1] = i # [i + 1..gridSize - 1]"
      using True by (simp add: upto_rec1)
    moreover have "inner_loop gridSize i 0 initialSpins = initialSpins @ row_of gridSize i"
      by (simp add: inner_loop_eq row_of_def)
    ultimately show ?thesis
      using True "1.IH" by (subst outer_loop.simps) simp
  next
    case False
    then show ?thesis by (subst outer_loop.simps) simp
  qed
qed

lemma build_spins_eq: "build_spins N = concat (map (row_of N) [0..N - 1])"
  by (simp add: build_spins_def outer_loop_eq)

lemma length_row_of: "length (row_of N i) = nat N"
  by (simp add: row_of_def)

lemma length_concat_uniform:
  "(\<And>xs. xs \<in> set xss \<Longrightarrow> length xs = n) \<Longrightarrow> length (concat xss) = length xss * n"
  by (induction xss) simp_all

lemma nth_concat_uniform:
  "(\<And>xs. xs \<in> set xss \<Longrightarrow> length xs = n) \<Longrightarrow> i < length xss \<Longrightarrow> j < n \<Longrightarrow>
   concat xss ! (i * n + j) = xss ! i ! j"
proof (induction xss arbitrary: i)
  case Nil
  then show ?case by simp
next
  case (Cons xs xss)
  have len: "length xs = n" using Cons.prems(1) by simp
  show ?case
  proof (cases i)
    case 0
    with len Cons.prems(3) show ?thesis by (simp add: nth_append)
  next
    case (Suc i')
    have "concat xss ! (i' * n + j) = xss ! i' ! j"
      using Cons.prems Suc by (intro Cons.IH) simp_all
    with len Suc show ?thesis by (simp add: nth_append add.assoc)
  qed
qed

lemma length_build_spins: "length (build_spins N) = nat N * nat N"
proof -
  have "length (concat (map (row_of N) [0..N - 1])) = length (map (row_of N) [0..N - 1]) * nat N"
    by (rule length_concat_uniform) (auto simp: length_row_of)
  then show ?thesis by (simp add: build_spins_eq)
qed

lemma build_spins_nth:
  assumes "0 \<le> i" "i < N" "0 \<le> j" "j < N"
  shows "build_spins N ! nat (i * N + j) = make_spin N i j"
proof -
  have idx: "nat (i * N + j) = nat i * nat N + nat j"
    using assms by (simp add: nat_add_distrib nat_mult_distrib)
  have "build_spins N ! (nat i * nat N + nat j) = map (row_of N) [0..N - 1] ! nat i ! nat j"
    unfolding build_spins_eq
    using assms by (intro nth_concat_uniform) (auto simp: length_row_of)
  also have "\<dots> = make_spin N i j"
    using assms by (simp add: row_of_def)
  finally show ?thesis by (simp add: idx)
qed

lemma build_spins_nonpos: "N \<le> 0 \<Longrightarrow> build_spins N = []"
  by (simp add: build_spins_eq)

lemma neighbors_make_spin: "neighbors (make_spin N i j) = neighbors_of N i j"
  by (simp add: make_spin_def Let_def)

lemma neighbors_of_count:
  assumes "in_grid N i j"
  shows "(2 \<le> N \<and> is_corner N i j \<longrightarrow> length (neighbors_of N i j) = 2) \<and>
         (is_edge N i j \<longrightarrow> length (neighbors_of N i j) = 3) \<and>
         (is_interior N i j \<longrightarrow> length (neighbors_of N i j) = 4) \<and>
         (N = 1 \<longrightarrow> neighbors_of N i j = [])"
  using assms
  by (auto simp add: neighbors_of_def is_corner_def is_edge_def is_interior_def on_border_def
      in_grid_def)

lemma index_bound:
  assumes "in_grid N i j"
  shows "0 \<le> i * N + j \<and> i * N + j < N * N"
proof -
  have i: "0 \<le> i" "i + 1 \<le> N" and j: "0 \<le> j" "j < N" and N: "0 \<le> N"
    using assms by (simp_all add: in_grid_def)
  have "0 \<le> i * N" using i N by simp
  moreover have "(i + 1) * N \<le> N * N" using i N by (intro mult_right_mono) simp_all
  then have "i * N + N \<le> N * N" by (simp add: algebra_simps)
  ultimately show ?thesis using j by linarith
qed

lemma neighbors_of_back:
  assumes g: "in_grid N i j" and b: "b \<in> set (neighbors_of N i j)"
  shows "\<exists>i' j'. in_grid N i' j' \<and> b = i' * N + j' \<and> i * N + j \<in> set (neighbors_of N i' j')"
proof -
  from b consider
      (up) "i > 0" "b = (i - 1) * N + j"
    | (down) "i < N - 1" "b = (i + 1) * N + j"
    | (left) "j > 0" "b = i * N + (j - 1)"
    | (right) "j < N - 1" "b = i * N + (j + 1)"
    by (auto simp add: neighbors_of_def split: if_splits)
  then show ?thesis
  proof cases
    case up
    with g have "in_grid N (i - 1) j \<and> b = (i - 1) * N + j \<and>
        i * N + j \<in> set (neighbors_of N (i - 1) j)"
      by (simp add: in_grid_def neighbors_of_def)
    then show ?thesis by blast
  next
    case down
    with g have "in_grid N (i + 1) j \<and> b = (i + 1) * N + j \<and>
        i * N + j \<in> set (neighbors_of N (i + 1) j)"
      by (simp add: in_grid_def neighbors_of_def)
    then show ?thesis by blast
  next
    case left
    with g have "in_grid N i (j - 1) \<and> b = i * N + (j - 1) \<and>
        i * N + j \<in> set (neighbors_of N i (j - 1))"
      by (simp add: in_grid_def neighbors_of_def)
    then show ?thesis by blast
  next
    case right
    with g have "in_grid N i (j + 1) \<and> b = i * N + (j + 1) \<and>
        i * N + j \<in> set (neighbors_of N i (j + 1))"
      by (simp add: in_grid_def neighbors_of_def)
    then show ?thesis by blast
  qed
qed

lemma build_spins_nth_grid:
  "in_grid N i j \<Longrightarrow> build_spins N ! nat (i * N + j) = make_spin N i j"
  by (simp add: in_grid_def build_spins_nth)

lemma index_split:
  assumes "a < length (build_spins N)"
  shows "\<exists>i j. in_grid N i j \<and> int a = i * N + j"
proof -
  let ?n = "nat N"
  have a: "a < ?n * ?n" using assms by (simp add: length_build_spins)
  then have n: "0 < ?n" by (cases "?n") simp_all
  then have N: "int ?n = N" by simp
  have "a div ?n < ?n" using a n by (simp add: less_mult_imp_div_less)
  then have "int (a div ?n) < int ?n" by (simp only: of_nat_less_iff)
  moreover have "a mod ?n < ?n" using n by simp
  then have "int (a mod ?n) < int ?n" by (simp only: of_nat_less_iff)
  ultimately have "in_grid N (int (a div ?n)) (int (a mod ?n))"
    by (simp only: N in_grid_def) simp
  moreover have "int a = int (a div ?n) * N + int (a mod ?n)"
  proof -
    have "int a = int (a div ?n * ?n + a mod ?n)" by simp
    also have "\<dots> = int (a div ?n) * int ?n + int (a mod ?n)" by (simp only: of_nat_add of_nat_mult)
    finally show ?thesis by (simp only: N)
  qed
  ultimately show ?thesis by blast
qed

lemma build_spins_symmetric:
  assumes a: "a < length (build_spins N)" and b: "b \<in> set (neighbors (build_spins N ! a))"
  shows "0 \<le> b \<and> b < N * N \<and> int a \<in> set (neighbors (build_spins N ! nat b))"
proof -
  obtain i j where g: "in_grid N i j" and ij: "int a = i * N + j"
    using index_split [OF a] by blast
  have "a = nat (i * N + j)" using ij by simp
  then have "b \<in> set (neighbors_of N i j)"
    using b g by (simp add: build_spins_nth_grid neighbors_make_spin)
  then obtain i' j' where g': "in_grid N i' j'" and b': "b = i' * N + j'"
      and bk: "i * N + j \<in> set (neighbors_of N i' j')"
    using neighbors_of_back [OF g] by blast
  have "int a \<in> set (neighbors (build_spins N ! nat b))"
    using g' bk by (simp add: b' ij build_spins_nth_grid neighbors_make_spin)
  with index_bound [OF g'] b' show ?thesis by simp
qed

section \<open>Registers after the loop body, and the frame\<close>

lemma useFrame_spinsRef:
  assumes "headMeshRef st \<noteq> None" "shaftMeshRef st \<noteq> None" "index < length (spinsRef st)"
  shows "spinsRef (useFrame props target delta st) ! index =
         spinsRef (site_update props (frame_dt props delta) (frame_entry target st) index) ! index"
proof -
  have d0: "distinct [0..<length (spinsRef s)]" for s :: SimState
    by simp
  obtain h s where hs: "headMeshRef st = Some h" "shaftMeshRef st = Some s"
    using assms by auto
  have ne: "spinsRef st \<noteq> []" using assms(3) by auto
  show ?thesis
    using assms(3) hs ne
    by (cases target)
      (simp_all add: useFrame_def useFrame_in_order_def Let_def frame_entry_def
        forEach_spin_spinsRef [OF d0] spins_after_def site_update_spinsRef)
qed

lemma site_update_H_eff_v:
  "H_eff_v (site_update props dt st index) =
     H_eff_of props (mousePosRef st) (prevDirectionsRef st) (spinsRef st ! index)"
  by (simp add: site_update_eq Let_def)

lemma addScaledVector_eq: "addScaledVector v d s = addVectors v (multiplyScalar d s)"
  by (simp add: addScaledVector_def addVectors_def multiplyScalar_def)

lemma site_update_registers:
  "term1_v (site_update props dt st index) =
     term1_of props (direction (spinsRef st ! index)) (H_eff_v (site_update props dt st index)) \<and>
   term2_v (site_update props dt st index) =
     term2_of props (direction (spinsRef st ! index)) (H_eff_v (site_update props dt st index)) \<and>
   dmdt_v (site_update props dt st index) =
     dmdt_of props (direction (spinsRef st ! index)) (H_eff_v (site_update props dt st index))"
  by (simp add: site_update_eq Let_def)

lemma site_update_m_new:
  assumes "index < length (spinsRef st)"
  shows "direction (spinsRef (site_update props dt st index) ! index) =
         m_new_of props dt (direction (spinsRef st ! index)) (H_eff_v (site_update props dt st index))"
  using assms by (simp add: site_update_eq Let_def spin_step_def)

lemma frame_entry_spinsRef: "spinsRef (frame_entry target st) = spinsRef st"
  by (cases target) (simp_all add: frame_entry_def)

lemmas fixture_defs = mounted_state_def site_def
  initial_state_def empty_mesh_def default_props_def

lemmas vector_defs = subVectors_def addVectors_def multiplyScalar_def divideScalar_def
  addScaledVector_def crossVectors_def lengthSq_def length_v_def normalize_v_def add_v_def

lemmas step_defs = spin_step_def m_new_of_def dmdt_of_def term1_of_def term2_of_def
  gamma_eff_of_def H_eff_of_def H_exch_of_def H_ext_of_def exchange_sum_def lookup_dir_def

lemma add_v_assoc: "add_v (add_v a b) c = add_v a (addVectors b c)"
  by (simp add: add_v_def addVectors_def)

lemma add_v_zero: "add_v a (Vector3 0 0 0) = a"
  by (simp add: add_v_def)

lemma exchange_sum_eq:
  "exchange_sum prev acc ks =
     add_v acc (sum_vectors (map (\<lambda>k. prev ! nat k)
       (filter (\<lambda>k. 0 \<le> k \<and> k < int (length prev)) ks)))"
proof (induction ks arbitrary: acc)
  case Nil
  show ?case by (simp add: exchange_sum_def sum_vectors_def add_v_zero)
next
  case (Cons k ks)
  have step: "exchange_sum prev acc (k # ks) =
      exchange_sum prev (case lookup_dir prev k of Some d \<Rightarrow> add_v acc d | None \<Rightarrow> acc) ks"
    by (simp add: exchange_sum_def)
  show ?case
  proof (cases "0 \<le> k \<and> k < int (length prev)")
    case True
    then have "lookup_dir prev k = Some (prev ! nat k)"
      by (simp add: lookup_dir_def) linarith
    with True show ?thesis
      by (simp add: step Cons.IH add_v_assoc sum_vectors_def)
  next
    case False
    then have "lookup_dir prev k = None"
      by (simp add: lookup_dir_def) linarith
    with False show ?thesis
      by (auto simp add: step Cons.IH)
  qed
qed

lemma H_ext_of_eq:
  "H_ext_of props pointer pos =
     external_term (if isFieldInverted props then - externalFieldStrength props
                    else externalFieldStrength props) pointer pos"
proof (cases "length_v (subVectors pos pointer) = 0")
  case True
  then have "normalize_v (subVectors pos pointer) = Vector3 0 0 0"
    by (simp add: length_v_eq_0_iff normalize_zero)
  with True show ?thesis
    by (simp add: H_ext_of_def external_term_def Let_def multiplyScalar_def)
next
  case False
  then have n: "normalize_v (subVectors pos pointer) =
      divideScalar (subVectors pos pointer) (length_v (subVectors pos pointer))"
    by (simp add: normalize_v_def)
  have c: "1 + lengthSq (subVectors pos pointer) * 5 = 1 + 5 * lengthSq (subVectors pos pointer)"
    by simp
  from False show ?thesis
    by (simp add: H_ext_of_def external_term_def Let_def n c)
qed

lemma H_exch_of_eq:
  "H_exch_of props prev ks = exchange_term (exchangeStrength props) prev ks"
  by (simp add: H_exch_of_def exchange_term_def exchange_sum_eq add_v_def addVectors_def)

lemma site_update_H_ext_v:
  "H_ext_v (site_update props dt st index) =
     H_ext_of props (mousePosRef st) (position (spinsRef st ! index))"
  by (simp add: site_update_eq Let_def)

lemma site_update_H_exch_v:
  "H_exch_v (site_update props dt st index) =
     H_exch_of props (prevDirectionsRef st) (neighbors (spinsRef st ! index))"
  by (simp add: site_update_eq Let_def)

section \<open>The integrator with overflow\<close>

lemma sqrt_25_16: "sqrt (25 / 16) = 5 / 4"
  by (rule real_sqrt_unique) (simp_all add: power2_eq_square)




lemma neg_n_Finite: "neg_n x = Finite r \<Longrightarrow> \<exists>a. x = Finite a \<and> r = - a"
  by (cases x) simp_all





lemma Vector3_n_fin:
  "Vector3_n (Finite p) (Finite q) (Finite r) = fin (Vector3 p q r)"
  by (simp add: fin_def)













lemma overflow_numeral [simp]:
  "\<bar>x\<bar> \<le> 2 ^ 1023 \<Longrightarrow> overflow x = Finite x"
proof -
  assume a: "\<bar>x\<bar> \<le> 2 ^ 1023"
  have "(1::real) * 2 ^ 1023 < (2 - 1 / 2 ^ 53) * 2 ^ 1023"
    by (intro mult_strict_right_mono) simp_all
  then have "(2::real) ^ 1023 < OVERFLOW_AT" by (simp add: OVERFLOW_AT_def)
  with a show ?thesis by (auto simp add: overflow_def)
qed


section \<open>Claims\<close>

text \<open>
  C1. In a frame that runs the site loop (both meshes exist), every site's direction is
  updated by the damped-precession forward-Euler rule. With \<open>m\<close> the site's direction
  before the frame, \<open>H_eff\<close> the effective field of the frame's inputs (the external
  term from the pointer position of this frame and the site's position, with the sign of
  the polarity flag, plus the exchange term from the directions all sites had before the
  frame), \<open>dt = min delta 0.03 * timeStepScale\<close> and
  \<open>gamma_eff = gamma / (1 + alpha\<^sup>2)\<close>: \<open>term1 = - gamma_eff (m \<times> H_eff)\<close>,
  \<open>term2 = - gamma_eff alpha (m \<times> (m \<times> H_eff))\<close>, \<open>dmdt = term1 + term2\<close>, the direction
  after the frame is \<open>normalize (m + dmdt dt)\<close>, and the helper vectors of the loop body
  hold these values. The rule holds for every \<open>m\<close>, unit or not.
\<close>

theorem useFrame_euler_step:
  assumes "headMeshRef st \<noteq> None" "shaftMeshRef st \<noteq> None" "index < length (spinsRef st)"
  shows "let m = direction (spinsRef st ! index);
             pointer = (case target of Some t \<Rightarrow> t | None \<Rightarrow> mousePosRef st);
             H_eff = addVectors
               (external_term (if isFieldInverted props then - externalFieldStrength props
                               else externalFieldStrength props)
                  pointer (position (spinsRef st ! index)))
               (exchange_term (exchangeStrength props) (map direction (spinsRef st))
                  (neighbors (spinsRef st ! index)));
             dt = min delta 0.03 * timeStepScale props;
             gamma_eff = gamma props / (1 + (alpha props)\<^sup>2);
             term1 = multiplyScalar (crossVectors m H_eff) (- gamma_eff);
             term2 = multiplyScalar (crossVectors m (crossVectors m H_eff)) (- gamma_eff * alpha props);
             dmdt = addVectors term1 term2;
             st' = site_update props dt (frame_entry target st) index
         in direction (spinsRef (useFrame props target delta st) ! index) =
              normalize_v (addVectors m (multiplyScalar dmdt dt)) \<and>
            H_eff_v st' = H_eff \<and> term1_v st' = term1 \<and> term2_v st' = term2 \<and>
            dmdt_v st' = dmdt"
proof -
  define dt where "dt = min delta 0.03 * timeStepScale props"
  define st' where "st' = site_update props dt (frame_entry target st) index"
  define m where "m = direction (spinsRef st ! index)"
  define pointer where "pointer = (case target of Some t \<Rightarrow> t | None \<Rightarrow> mousePosRef st)"
  define H where "H = addVectors
               (external_term (if isFieldInverted props then - externalFieldStrength props
                               else externalFieldStrength props)
                  pointer (position (spinsRef st ! index)))
               (exchange_term (exchangeStrength props) (map direction (spinsRef st))
                  (neighbors (spinsRef st ! index)))"
  have idx: "index < length (spinsRef (frame_entry target st))"
    using assms(3) by (simp add: frame_entry_spinsRef)
  have mp: "mousePosRef (frame_entry target st) = pointer"
    by (cases target) (simp_all add: frame_entry_def pointer_def)
  have pd: "prevDirectionsRef (frame_entry target st) = map direction (spinsRef st)"
    by (cases target) (simp_all add: frame_entry_def)
  have HH: "H_eff_v st' = H"
    by (simp only: st'_def site_update_H_eff_v H_eff_of_def H_ext_of_eq H_exch_of_eq mp pd
        frame_entry_spinsRef H_def)
  have g: "gamma_eff_of props = gamma props / (1 + (alpha props)\<^sup>2)"
    by (simp add: gamma_eff_of_def power2_eq_square)
  have r: "term1_v st' = term1_of props m H"
      "term2_v st' = term2_of props m H"
      "dmdt_v st' = dmdt_of props m H"
    using site_update_registers [of props dt "frame_entry target st" index]
    by (simp_all add: st'_def [symmetric] HH m_def frame_entry_spinsRef)
  have d: "direction (spinsRef st' ! index) = m_new_of props dt m H"
    using site_update_m_new [OF idx, of props dt]
    by (simp add: st'_def [symmetric] HH m_def frame_entry_spinsRef)
  have f: "spinsRef (useFrame props target delta st) ! index = spinsRef st' ! index"
    using useFrame_spinsRef [OF assms, of props target delta]
    by (simp add: st'_def dt_def frame_dt_def)
  have t1: "term1_v st' = multiplyScalar (crossVectors m H) (- (gamma props / (1 + (alpha props)\<^sup>2)))"
    by (simp only: r term1_of_def g)
  have t2: "term2_v st' = multiplyScalar (crossVectors m (crossVectors m H))
      (- (gamma props / (1 + (alpha props)\<^sup>2)) * alpha props)"
    by (simp only: r term2_of_def g)
  have dm: "dmdt_v st' = addVectors
      (multiplyScalar (crossVectors m H) (- (gamma props / (1 + (alpha props)\<^sup>2))))
      (multiplyScalar (crossVectors m (crossVectors m H))
        (- (gamma props / (1 + (alpha props)\<^sup>2)) * alpha props))"
    by (simp only: r dmdt_of_def term1_of_def term2_of_def g)
  have "direction (spinsRef (useFrame props target delta st) ! index) =
      normalize_v (addVectors m (multiplyScalar
      (addVectors
        (multiplyScalar (crossVectors m H) (- (gamma props / (1 + (alpha props)\<^sup>2))))
        (multiplyScalar (crossVectors m (crossVectors m H))
          (- (gamma props / (1 + (alpha props)\<^sup>2)) * alpha props))) dt))"
    by (simp only: f d m_new_of_def dmdt_of_def term1_of_def term2_of_def g addScaledVector_eq)
  with HH t1 t2 dm show ?thesis
    unfolding Let_def dt_def [symmetric] pointer_def [symmetric] m_def [symmetric]
      H_def [symmetric] st'_def [symmetric]
    by (simp only: simp_thms)
qed

theorem useFrame_euler_step_witness:
  "headMeshRef tilt_state \<noteq> None \<and> shaftMeshRef tilt_state \<noteq> None \<and>
   0 < length (spinsRef tilt_state) \<and>
   direction (spinsRef tilt_state ! 0) = Vector3 0 0 1 \<and>
   direction (spinsRef (useFrame tilt_props None 1 tilt_state) ! 0) =
     Vector3 (9 / 25) (- 12 / 25) (4 / 5)"
proof -
  have h: "headMeshRef tilt_state \<noteq> None" "shaftMeshRef tilt_state \<noteq> None"
      "0 < length (spinsRef tilt_state)"
    by (simp_all add: tilt_state_def fixture_defs)
  have m: "direction (spinsRef tilt_state ! 0) = Vector3 0 0 1"
    by (simp add: tilt_state_def fixture_defs)
  have e: "external_term (externalFieldStrength tilt_props) (mousePosRef tilt_state)
      (position (spinsRef tilt_state ! 0)) = Vector3 (1 / 10) 0 0"
    by (simp add: external_term_def tilt_state_def tilt_props_def fixture_defs vector_defs Let_def)
  have x: "exchange_term (exchangeStrength tilt_props) (map direction (spinsRef tilt_state))
      (neighbors (spinsRef tilt_state ! 0)) = Vector3 (1 / 10) 0 0"
    by (simp add: exchange_term_def sum_vectors_def tilt_state_def tilt_props_def fixture_defs
        vector_defs)
  have p: "isFieldInverted tilt_props = False" "gamma tilt_props = 25 / 16"
      "alpha tilt_props = 3 / 4" "timeStepScale tilt_props = 100"
    by (simp_all add: tilt_props_def)
  have n: "normalize_v (Vector3 (9 / 20) (- (3 / 5)) 1) = Vector3 (9 / 25) (- 12 / 25) (4 / 5)"
    by (simp add: normalize_v_def length_v_def lengthSq_def divideScalar_def multiplyScalar_def
        sqrt_25_16)
  show ?thesis
    using useFrame_euler_step [OF h, of None tilt_props 1] h m
    by (simp add: Let_def m e x p power2_eq_square addVectors_def multiplyScalar_def
        crossVectors_def n)
qed




text \<open>
  C3, as amended. The effective field the loop body leaves in \<open>H_eff\<close> is the sum of the
  external term and the exchange term of the specification, where the external term's
  strength is \<open>externalFieldStrength / (1 + 5 d\<^sup>2)\<close> when the polarity flag is clear and
  its negation when the flag is set. The counterexample evaluates a site one unit from
  the pointer with the flag set: the code gives \<open>(-1, 0, 0)\<close>, the formula without the
  sign gives \<open>(1, 0, 0)\<close>.
\<close>

theorem site_update_field:
  "H_eff_v (site_update props dt st index) =
     addVectors
       (external_term (if isFieldInverted props then - externalFieldStrength props
                       else externalFieldStrength props)
          (mousePosRef st) (position (spinsRef st ! index)))
       (exchange_term (exchangeStrength props) (prevDirectionsRef st)
          (neighbors (spinsRef st ! index)))"
proof -
  have "H_eff_v (site_update props dt st index) =
      addVectors (H_ext_of props (mousePosRef st) (position (spinsRef st ! index)))
        (H_exch_of props (prevDirectionsRef st) (neighbors (spinsRef st ! index)))"
    by (simp only: site_update_H_eff_v H_eff_of_def)
  then show ?thesis
    by (simp only: H_ext_of_eq H_exch_of_eq)
qed

theorem site_update_field_witness:
  "H_eff_v (site_update inverted_props 0 offset_site_state 0) =
     addVectors (external_term (- 6) (Vector3 0 0 0) (Vector3 1 0 0))
                (exchange_term (3 / 20000000000) [Vector3 0 0 1] [])"
  using site_update_field [of inverted_props 0 offset_site_state 0]
  by (simp add: offset_site_state_def inverted_props_def fixture_defs)

theorem inverted_field_counterexample:
  "H_eff_v (site_update inverted_props 0 offset_site_state 0) = Vector3 (- 1) 0 0 \<and>
   addVectors
     (external_term (externalFieldStrength inverted_props) (mousePosRef offset_site_state)
        (position (spinsRef offset_site_state ! 0)))
     (exchange_term (exchangeStrength inverted_props) (prevDirectionsRef offset_site_state)
        (neighbors (spinsRef offset_site_state ! 0))) = Vector3 1 0 0"
proof -
  have "H_eff_v (site_update inverted_props 0 offset_site_state 0) = Vector3 (- 1) 0 0"
    by (simp add: site_update_H_eff_v offset_site_state_def inverted_props_def fixture_defs
        step_defs vector_defs Let_def)
  moreover have "addVectors
     (external_term (externalFieldStrength inverted_props) (mousePosRef offset_site_state)
        (position (spinsRef offset_site_state ! 0)))
     (exchange_term (exchangeStrength inverted_props) (prevDirectionsRef offset_site_state)
        (neighbors (spinsRef offset_site_state ! 0))) = Vector3 1 0 0"
    by (simp add: external_term_def exchange_term_def sum_vectors_def offset_site_state_def
        inverted_props_def fixture_defs vector_defs Let_def)
  ultimately show ?thesis by simp
qed

text \<open>
  C4. Two runs of one frame that differ only in the order in which the sites are visited
  end with the same sites (directions and matrices), the same mesh buffers, the same
  snapshot and the same pointer position. The order is any function that lists every
  index of the site list exactly once.
\<close>

theorem useFrame_order_independent:
  assumes ord: "\<And>s. distinct (ord s) \<and> set (ord s) = {0..<length (spinsRef s)}"
  shows "spinsRef (useFrame_in_order ord props target delta st) =
           spinsRef (useFrame props target delta st) \<and>
         headMeshRef (useFrame_in_order ord props target delta st) =
           headMeshRef (useFrame props target delta st) \<and>
         shaftMeshRef (useFrame_in_order ord props target delta st) =
           shaftMeshRef (useFrame props target delta st) \<and>
         prevDirectionsRef (useFrame_in_order ord props target delta st) =
           prevDirectionsRef (useFrame props target delta st) \<and>
         mousePosRef (useFrame_in_order ord props target delta st) =
           mousePosRef (useFrame props target delta st)"
proof -
  have d: "distinct (ord s)" and s: "set (ord s) = set [0..<length (spinsRef s)]" for s
    using ord [of s] by simp_all
  have d0: "distinct [0..<length (spinsRef s)]" for s :: SimState
    by simp
  show ?thesis
    by (simp add: useFrame_def useFrame_in_order_def Let_def
        forEach_spin_spinsRef [OF d] forEach_spin_spinsRef [OF d0]
        forEach_spin_headMeshRef [OF d] forEach_spin_headMeshRef [OF d0]
        forEach_spin_shaftMeshRef [OF d] forEach_spin_shaftMeshRef [OF d0]
        forEach_spin_prevDirectionsRef forEach_spin_mousePosRef s
        del: set_upt)
qed

theorem useFrame_order_independent_witness:
  "(\<forall>s. distinct (rev [0..<length (spinsRef s)]) \<and>
        set (rev [0..<length (spinsRef s)]) = {0..<length (spinsRef s)}) \<and>
   spinsRef (useFrame_in_order (\<lambda>s. rev [0..<length (spinsRef s)]) default_props None 0.016
      (initial_state\<lparr>spinsRef := build_spins 2, headMeshRef := Some (empty_mesh 4),
                     shaftMeshRef := Some (empty_mesh 4)\<rparr>)) =
   spinsRef (useFrame default_props None 0.016
      (initial_state\<lparr>spinsRef := build_spins 2, headMeshRef := Some (empty_mesh 4),
                     shaftMeshRef := Some (empty_mesh 4)\<rparr>))"
proof -
  have h: "\<And>s. distinct (rev [0..<length (spinsRef s)]) \<and>
        set (rev [0..<length (spinsRef s)]) = {0..<length (spinsRef s)}"
    by simp
  show ?thesis
    using useFrame_order_independent [of "\<lambda>s. rev [0..<length (spinsRef s)]", OF h] h
    by simp
qed

text \<open>
  C5, as amended. For every grid size \<open>N \<ge> 1\<close> the builder makes \<open>N\<^sup>2\<close> sites; every
  neighbour index is in \<open>[0, N\<^sup>2)\<close> and the neighbour relation is symmetric; for
  \<open>N \<ge> 2\<close> a corner has 2 neighbours; an edge site has 3 and an interior site 4; for
  \<open>N = 1\<close> the single site, which is a corner, has none (the counterexample).
\<close>

theorem build_spins_neighbors:
  assumes "1 \<le> N"
  shows "length (build_spins N) = nat (N * N) \<and>
    (\<forall>i j. in_grid N i j \<longrightarrow>
       (2 \<le> N \<and> is_corner N i j \<longrightarrow> length (neighbors (build_spins N ! nat (i * N + j))) = 2) \<and>
       (is_edge N i j \<longrightarrow> length (neighbors (build_spins N ! nat (i * N + j))) = 3) \<and>
       (is_interior N i j \<longrightarrow> length (neighbors (build_spins N ! nat (i * N + j))) = 4) \<and>
       (N = 1 \<longrightarrow> neighbors (build_spins N ! nat (i * N + j)) = [])) \<and>
    (\<forall>a b. a < length (build_spins N) \<and> b \<in> set (neighbors (build_spins N ! a)) \<longrightarrow>
       0 \<le> b \<and> b < N * N \<and> int a \<in> set (neighbors (build_spins N ! nat b)))"
proof (intro conjI allI impI)
  show "length (build_spins N) = nat (N * N)"
    using assms by (simp add: length_build_spins nat_mult_distrib)
next
  fix i j assume g: "in_grid N i j"
  have nb: "neighbors (build_spins N ! nat (i * N + j)) = neighbors_of N i j"
    using g by (simp add: build_spins_nth_grid neighbors_make_spin)
  note c = neighbors_of_count [OF g]
  { assume "2 \<le> N \<and> is_corner N i j"
    with c have "length (neighbors_of N i j) = 2" by blast
    then show "length (neighbors (build_spins N ! nat (i * N + j))) = 2" by (simp only: nb) }
  { assume "is_edge N i j"
    with c have "length (neighbors_of N i j) = 3" by blast
    then show "length (neighbors (build_spins N ! nat (i * N + j))) = 3" by (simp only: nb) }
  { assume "is_interior N i j"
    with c have "length (neighbors_of N i j) = 4" by blast
    then show "length (neighbors (build_spins N ! nat (i * N + j))) = 4" by (simp only: nb) }
  { assume "N = 1"
    with c have "neighbors_of N i j = []" by blast
    then show "neighbors (build_spins N ! nat (i * N + j)) = []" by (simp only: nb) }
next
  fix a b assume h: "a < length (build_spins N) \<and> b \<in> set (neighbors (build_spins N ! a))"
  then have s: "0 \<le> b \<and> b < N * N \<and> int a \<in> set (neighbors (build_spins N ! nat b))"
    by (intro build_spins_symmetric) simp_all
  from s show "0 \<le> b" by simp
  from s show "b < N * N" by simp
  from s show "int a \<in> set (neighbors (build_spins N ! nat b))" by simp
qed

theorem build_spins_neighbors_witness:
  "(1::int) \<le> 3 \<and> length (build_spins 3) = 9 \<and>
   in_grid 3 0 0 \<and> is_corner 3 0 0 \<and> length (neighbors (build_spins 3 ! 0)) = 2 \<and>
   in_grid 3 0 1 \<and> is_edge 3 0 1 \<and> length (neighbors (build_spins 3 ! 1)) = 3 \<and>
   in_grid 3 1 1 \<and> is_interior 3 1 1 \<and> length (neighbors (build_spins 3 ! 4)) = 4 \<and>
   0 < length (build_spins 3) \<and> 1 \<in> set (neighbors (build_spins 3 ! 0)) \<and>
   0 \<in> set (neighbors (build_spins 3 ! 1))"
proof -
  have h: "(1::int) \<le> 3" by simp
  have g: "in_grid 3 0 0" "is_corner 3 0 0" "in_grid 3 0 1" "is_edge 3 0 1"
      "in_grid 3 1 1" "is_interior 3 1 1"
    by (simp_all add: in_grid_def is_corner_def is_edge_def is_interior_def on_border_def)
  from build_spins_neighbors [OF h] have
    len: "length (build_spins 3) = nat (3 * 3)" and
    cnt: "\<And>i j. in_grid 3 i j \<Longrightarrow>
       (2 \<le> (3::int) \<and> is_corner 3 i j \<longrightarrow> length (neighbors (build_spins 3 ! nat (i * 3 + j))) = 2) \<and>
       (is_edge 3 i j \<longrightarrow> length (neighbors (build_spins 3 ! nat (i * 3 + j))) = 3) \<and>
       (is_interior 3 i j \<longrightarrow> length (neighbors (build_spins 3 ! nat (i * 3 + j))) = 4)" and
    sym: "\<And>a b. a < length (build_spins 3) \<and> b \<in> set (neighbors (build_spins 3 ! a)) \<Longrightarrow>
       int a \<in> set (neighbors (build_spins 3 ! nat b))"
    by blast+
  have l: "0 < length (build_spins 3)" using len by simp
  have "build_spins 3 ! nat (0 * 3 + 0) = make_spin 3 0 0"
    by (rule build_spins_nth_grid [OF g(1)])
  then have m: "1 \<in> set (neighbors (build_spins 3 ! 0))"
    by (simp add: neighbors_make_spin neighbors_of_def)
  from sym [of 0 1] l m have s: "0 \<in> set (neighbors (build_spins 3 ! 1))" by simp
  from cnt [OF g(1)] cnt [OF g(3)] cnt [OF g(5)] g len l m s show ?thesis by simp
qed

theorem single_site_corner_counterexample:
  "(1::int) \<le> 1 \<and> in_grid 1 0 0 \<and> is_corner 1 0 0 \<and>
   length (neighbors (build_spins 1 ! nat (0 * 1 + 0))) \<noteq> 2"
proof -
  have g: "in_grid 1 0 0" by (simp add: in_grid_def)
  have "build_spins 1 ! nat (0 * 1 + 0) = make_spin 1 0 0"
    by (rule build_spins_nth_grid [OF g])
  then show ?thesis
    using g by (simp add: neighbors_make_spin neighbors_of_def is_corner_def on_border_def)
qed

text \<open>
  C6. For every grid size \<open>S\<close> and every row and column in \<open>[0, S)\<close> (so \<open>S \<ge> 1\<close>), the
  builder makes \<open>S\<^sup>2\<close> sites and puts, at index \<open>row * S + col\<close>, the site with position
  \<open>(row * SPACING - offset, col * SPACING - offset, 0)\<close>, where
  \<open>offset = (S - 1) * SPACING / 2\<close>, and direction \<open>(0, 0, 1)\<close>.
\<close>

theorem build_spins_position:
  assumes "in_grid S row col"
  shows "length (build_spins S) = nat (S * S) \<and>
    position (build_spins S ! nat (row * S + col)) =
      Vector3 (real_of_int row * SPACING - real_of_int (S - 1) * SPACING / 2)
              (real_of_int col * SPACING - real_of_int (S - 1) * SPACING / 2) 0 \<and>
    direction (build_spins S ! nat (row * S + col)) = Vector3 0 0 1"
proof -
  have "0 \<le> S" using assms by (simp add: in_grid_def)
  then have "length (build_spins S) = nat (S * S)"
    by (simp add: length_build_spins nat_mult_distrib)
  then show ?thesis
    using assms by (simp add: build_spins_nth_grid make_spin_def Let_def)
qed

theorem build_spins_position_witness:
  "in_grid 2 1 0 \<and> length (build_spins 2) = 4 \<and>
   position (build_spins 2 ! 2) = Vector3 (1 / 4) (- 1 / 4) 0 \<and>
   direction (build_spins 2 ! 2) = Vector3 0 0 1"
proof -
  have g: "in_grid 2 1 0" by (simp add: in_grid_def)
  show ?thesis
    using build_spins_position [OF g] g by (simp add: SPACING_def)
qed

text \<open>
  C7. With everything else equal, setting the polarity flag multiplies the external term
  left in \<open>H_ext\<close> by \<open>-1\<close>, leaves the exchange term in \<open>H_exch\<close> as it is, and so
  changes the effective field by \<open>-2\<close> times the external term of the clear flag.
\<close>

theorem polarity_flips_external_only:
  "H_ext_v (site_update (props\<lparr>isFieldInverted := True\<rparr>) dt st index) =
     multiplyScalar (H_ext_v (site_update (props\<lparr>isFieldInverted := False\<rparr>) dt st index)) (- 1) \<and>
   H_exch_v (site_update (props\<lparr>isFieldInverted := True\<rparr>) dt st index) =
     H_exch_v (site_update (props\<lparr>isFieldInverted := False\<rparr>) dt st index) \<and>
   subVectors (H_eff_v (site_update (props\<lparr>isFieldInverted := True\<rparr>) dt st index))
              (H_eff_v (site_update (props\<lparr>isFieldInverted := False\<rparr>) dt st index)) =
     multiplyScalar (H_ext_v (site_update (props\<lparr>isFieldInverted := False\<rparr>) dt st index)) (- 2)"
proof -
  have e: "H_ext_of (props\<lparr>isFieldInverted := True\<rparr>) p x =
      multiplyScalar (H_ext_of (props\<lparr>isFieldInverted := False\<rparr>) p x) (- 1)" for p x
    by (simp add: H_ext_of_def Let_def multiplyScalar_def)
  have x: "H_exch_of (props\<lparr>isFieldInverted := True\<rparr>) ds ks =
      H_exch_of (props\<lparr>isFieldInverted := False\<rparr>) ds ks" for ds ks
    by (simp add: H_exch_of_def)
  have a: "subVectors (addVectors (multiplyScalar u (- 1)) w) (addVectors u w) =
      multiplyScalar u (- 2)" for u w
    by (simp add: subVectors_def addVectors_def multiplyScalar_def)
  show ?thesis
    by (simp only: site_update_H_ext_v site_update_H_exch_v site_update_H_eff_v H_eff_of_def
        e x a simp_thms)
qed

theorem polarity_flips_external_only_witness:
  "subVectors (H_eff_v (site_update (inverted_props\<lparr>isFieldInverted := True\<rparr>) 0 offset_site_state 0))
              (H_eff_v (site_update (inverted_props\<lparr>isFieldInverted := False\<rparr>) 0 offset_site_state 0)) =
     Vector3 (- 2) 0 0"
proof -
  have "H_ext_v (site_update (inverted_props\<lparr>isFieldInverted := False\<rparr>) 0 offset_site_state 0) =
        Vector3 1 0 0"
    by (simp add: site_update_H_ext_v offset_site_state_def inverted_props_def fixture_defs
        step_defs vector_defs Let_def)
  then show ?thesis
    using polarity_flips_external_only [of inverted_props 0 offset_site_state 0]
    by (simp add: multiplyScalar_def)
qed

text \<open>
  C8. When a site's direction \<open>m\<close> has length 1 and the effective field computed for it
  is a multiple \<open>c m\<close> of it (\<open>c = 0\<close> is the zero field), both cross products are the
  zero vector, so are \<open>term1\<close>, \<open>term2\<close> and \<open>dmdt\<close>, and the loop body leaves the site's
  direction as it was.
\<close>

theorem parallel_field_keeps_direction:
  assumes "index < length (spinsRef st)"
    and "length_v (direction (spinsRef st ! index)) = 1"
    and "H_eff_v (site_update props dt st index) = multiplyScalar (direction (spinsRef st ! index)) c"
  shows "crossVectors (direction (spinsRef st ! index)) (H_eff_v (site_update props dt st index)) =
           Vector3 0 0 0 \<and>
         crossVectors (direction (spinsRef st ! index))
           (crossVectors (direction (spinsRef st ! index)) (H_eff_v (site_update props dt st index))) =
           Vector3 0 0 0 \<and>
         term1_v (site_update props dt st index) = Vector3 0 0 0 \<and>
         term2_v (site_update props dt st index) = Vector3 0 0 0 \<and>
         dmdt_v (site_update props dt st index) = Vector3 0 0 0 \<and>
         direction (spinsRef (site_update props dt st index) ! index) =
           direction (spinsRef st ! index)"
proof -
  let ?m = "direction (spinsRef st ! index)"
  let ?H = "H_eff_v (site_update props dt st index)"
  have c1: "crossVectors ?m ?H = Vector3 0 0 0"
    by (simp only: assms(3) crossVectors_parallel)
  have c2: "crossVectors ?m (crossVectors ?m ?H) = Vector3 0 0 0"
    by (simp only: c1 crossVectors_zero)
  have z: "multiplyScalar (Vector3 0 0 0) s = Vector3 0 0 0" for s
    by (simp add: multiplyScalar_def)
  have t1: "term1_of props ?m ?H = Vector3 0 0 0"
    by (simp only: term1_of_def c1 z)
  have t2: "term2_of props ?m ?H = Vector3 0 0 0"
    by (simp only: term2_of_def c2 z)
  have d: "dmdt_of props ?m ?H = Vector3 0 0 0"
    by (simp only: dmdt_of_def t1 t2) (simp add: addVectors_def)
  have "addScaledVector ?m (Vector3 0 0 0) dt = ?m"
    by (cases ?m) (simp add: addScaledVector_def)
  then have n: "m_new_of props dt ?m ?H = ?m"
    by (simp only: m_new_of_def d normalize_unit [OF assms(2)])
  show ?thesis
    using site_update_registers [of props dt st index] site_update_m_new [OF assms(1), of props dt]
    by (simp only: c1 c2 t1 t2 d n crossVectors_zero simp_thms)
qed

theorem parallel_field_keeps_direction_witness:
  "0 < length (spinsRef pair_state) \<and>
   length_v (direction (spinsRef pair_state ! 0)) = 1 \<and>
   H_eff_v (site_update (default_props\<lparr>externalFieldStrength := 0\<rparr>) (1 / 100) pair_state 0) =
     multiplyScalar (direction (spinsRef pair_state ! 0)) (3 / 20000) \<and>
   direction (spinsRef (site_update (default_props\<lparr>externalFieldStrength := 0\<rparr>) (1 / 100)
      pair_state 0) ! 0) = Vector3 0 0 1"
proof -
  have h: "0 < length (spinsRef pair_state)"
      "length_v (direction (spinsRef pair_state ! 0)) = 1"
      "H_eff_v (site_update (default_props\<lparr>externalFieldStrength := 0\<rparr>) (1 / 100) pair_state 0) =
         multiplyScalar (direction (spinsRef pair_state ! 0)) (3 / 20000)"
    by (simp_all add: site_update_H_eff_v pair_state_def fixture_defs step_defs vector_defs Let_def)
  have m: "direction (spinsRef pair_state ! 0) = Vector3 0 0 1"
    by (simp add: pair_state_def fixture_defs)
  show ?thesis
    using parallel_field_keeps_direction [OF h] h by (simp add: m)
qed

text \<open>
  C9, as amended. For a grid size that is negative or zero the lattice builder signals
  nothing: the effect ends normally and stores the empty list of sites. The
  counterexample runs it with grid size \<open>-1\<close> on the freshly mounted component.
\<close>

theorem useEffect_build_nonpositive:
  assumes "gridSize props \<le> 0"
  shows "\<exists>st'. useEffect_build props st = Inr st' \<and> spinsRef st' = []"
  using assms
  by (simp add: useEffect_build_def Let_def build_spins_nonpos copy_matrices_def
      split: option.split)

theorem useEffect_build_nonpositive_witness:
  "gridSize (default_props\<lparr>gridSize := - 1\<rparr>) \<le> 0 \<and>
   (\<exists>st'. useEffect_build (default_props\<lparr>gridSize := - 1\<rparr>) initial_state = Inr st' \<and>
          spinsRef st' = [])"
  using useEffect_build_nonpositive [of "default_props\<lparr>gridSize := - 1\<rparr>" initial_state]
  by (simp add: default_props_def)

theorem negative_gridSize_counterexample:
  "useEffect_build (default_props\<lparr>gridSize := - 1\<rparr>) initial_state = Inr initial_state"
  by (simp add: useEffect_build_def Let_def build_spins_nonpos default_props_def
      initial_state_def)

text \<open>
  C10. In the exchange loop a neighbour index outside the snapshot, negative or past the
  end, leaves the state as it is; an index inside adds the snapshot's direction at that
  index to \<open>H_exch\<close>; so for any list of neighbour indices and any snapshot the loop adds
  exactly the directions at the indices the snapshot has, and reads no other.
\<close>

theorem exchange_loop_guard:
  "(\<forall>k. \<not> (0 \<le> k \<and> k < int (length (prevDirectionsRef st))) \<longrightarrow> add_neighbor st k = st) \<and>
   (\<forall>k. 0 \<le> k \<and> k < int (length (prevDirectionsRef st)) \<longrightarrow>
        add_neighbor st k = st\<lparr>H_exch_v := add_v (H_exch_v st) (prevDirectionsRef st ! nat k)\<rparr>) \<and>
   foldl add_neighbor st ks =
     st\<lparr>H_exch_v := add_v (H_exch_v st)
          (sum_vectors (map (\<lambda>k. prevDirectionsRef st ! nat k)
             (filter (\<lambda>k. 0 \<le> k \<and> k < int (length (prevDirectionsRef st))) ks)))\<rparr>"
proof (intro conjI allI impI)
  fix k assume "\<not> (0 \<le> k \<and> k < int (length (prevDirectionsRef st)))"
  then have "lookup_dir (prevDirectionsRef st) k = None"
    by (simp add: lookup_dir_def) linarith
  then show "add_neighbor st k = st" by (simp add: add_neighbor_def)
next
  fix k assume "0 \<le> k \<and> k < int (length (prevDirectionsRef st))"
  then have "lookup_dir (prevDirectionsRef st) k = Some (prevDirectionsRef st ! nat k)"
    by (simp add: lookup_dir_def) linarith
  then show "add_neighbor st k = st\<lparr>H_exch_v := add_v (H_exch_v st) (prevDirectionsRef st ! nat k)\<rparr>"
    by (simp add: add_neighbor_def)
next
  show "foldl add_neighbor st ks =
     st\<lparr>H_exch_v := add_v (H_exch_v st)
          (sum_vectors (map (\<lambda>k. prevDirectionsRef st ! nat k)
             (filter (\<lambda>k. 0 \<le> k \<and> k < int (length (prevDirectionsRef st))) ks)))\<rparr>"
    by (simp only: foldl_add_neighbor exchange_sum_eq)
qed

theorem exchange_loop_guard_witness:
  "\<not> (0 \<le> (2::int) \<and> 2 < int (length (prevDirectionsRef pair_state))) \<and>
   add_neighbor pair_state 2 = pair_state \<and>
   \<not> (0 \<le> (- 1::int) \<and> - 1 < int (length (prevDirectionsRef pair_state))) \<and>
   add_neighbor pair_state (- 1) = pair_state \<and>
   (0 \<le> (1::int) \<and> 1 < int (length (prevDirectionsRef pair_state))) \<and>
   H_exch_v (add_neighbor pair_state 1) = Vector3 0 0 1 \<and>
   H_exch_v (foldl add_neighbor pair_state [2, 1, - 1, 0, 7]) = Vector3 0 0 2"
proof -
  have h: "\<not> (0 \<le> (2::int) \<and> 2 < int (length (prevDirectionsRef pair_state)))"
      "\<not> (0 \<le> (- 1::int) \<and> - 1 < int (length (prevDirectionsRef pair_state)))"
      "0 \<le> (1::int) \<and> 1 < int (length (prevDirectionsRef pair_state))"
    by (simp_all add: pair_state_def fixture_defs)
  note g = exchange_loop_guard [of pair_state "[2, 1, - 1, 0, 7]"]
  from g h have a: "add_neighbor pair_state 2 = pair_state"
      "add_neighbor pair_state (- 1) = pair_state"
      "add_neighbor pair_state 1 =
         pair_state\<lparr>H_exch_v := add_v (H_exch_v pair_state) (prevDirectionsRef pair_state ! nat 1)\<rparr>"
    by blast+
  from g have f: "foldl add_neighbor pair_state [2, 1, - 1, 0, 7] =
     pair_state\<lparr>H_exch_v := add_v (H_exch_v pair_state)
          (sum_vectors (map (\<lambda>k. prevDirectionsRef pair_state ! nat k)
             (filter (\<lambda>k. 0 \<le> k \<and> k < int (length (prevDirectionsRef pair_state)))
                [2, 1, - 1, 0, 7])))\<rparr>"
    by blast
  have v1: "H_exch_v (add_neighbor pair_state 1) = Vector3 0 0 1"
    by (simp only: a) (simp add: pair_state_def fixture_defs add_v_def)
  have v2: "H_exch_v (foldl add_neighbor pair_state [2, 1, - 1, 0, 7]) = Vector3 0 0 2"
    by (simp only: f) (simp add: pair_state_def fixture_defs add_v_def sum_vectors_def addVectors_def)
  from h a v1 v2 show ?thesis by simp
qed

end
